theory Spec2Isabelle
  imports Main
begin

section \<open>Law\_agent.py: the Streamlit script as a function of one run\<close>

text \<open>
  The repository is one Streamlit script. Streamlit executes the script from top to bottom
  on every user interaction; what survives between two executions is
  \<^verbatim>\<open>st.session_state\<close> and the persistent Chroma collection. One execution is
  modelled as a function from the widgets' values and the session to the new session and
  the list of effects, in program order.

  The phi library (agents, knowledge base, chunking, vector store) and the file system are
  not part of the repository: they are parameters (\<open>env\<close>), and every theorem holds
  for all of them unless it fixes one for a concrete run. Within one run no agent is given
  the same prompt twice, so an agent's answer is taken as a function of the agent, the
  collection and the prompt; agents read the collection and never write it.
\<close>

subsection \<open>Python values\<close>

text \<open>
  An exception: its class name and \<^verbatim>\<open>str(e)\<close>. \<open>Exn\<close> is an instance of
  \<^verbatim>\<open>Exception\<close>; \<open>BaseExn\<close> is one that is not (\<^verbatim>\<open>KeyboardInterrupt\<close>,
  \<^verbatim>\<open>SystemExit\<close>, Streamlit's script control exceptions), which
  \<^verbatim>\<open>except Exception\<close> does not catch.
\<close>

datatype exn =
    Exn (exn_class: string) (exn_str: string)
  | BaseExn (exn_class: string) (exn_str: string)

definition is_Exception :: "exn \<Rightarrow> bool" where
  "is_Exception e = (case e of Exn _ _ \<Rightarrow> True | BaseExn _ _ \<Rightarrow> False)"

text \<open>\<^verbatim>\<open>RunResponse.content\<close>: \<^verbatim>\<open>None\<close> or a text.\<close>

type_synonym content = "string option"

text \<open>Truthiness, as used by \<^verbatim>\<open>x if x else y\<close> and \<^verbatim>\<open>if not x\<close>.\<close>

definition truthy :: "content \<Rightarrow> bool" where
  "truthy c = (case c of None \<Rightarrow> False | Some t \<Rightarrow> t \<noteq> [])"

text \<open>What an f-string prints for \<^verbatim>\<open>{x}\<close>.\<close>

definition fmt :: "content \<Rightarrow> string" where
  "fmt c = (case c of None \<Rightarrow> ''None'' | Some t \<Rightarrow> t)"

abbreviation nl :: string where
  "nl \<equiv> [CHR 0x0A]"

subsection \<open>Objects of the script\<close>

text \<open>
  \<^verbatim>\<open>PDFKnowledgeBase(path, vector_db, reader, chunking_strategy=DocumentChunking(chunk_size, overlap))\<close>:
  the constructors only store their arguments; \<open>vector_db\<close> is always the session's one
  and \<open>reader\<close> is always a fresh \<^verbatim>\<open>PDFReader()\<close>, so the object is determined by the
  three remaining values.
\<close>

record pdf_knowledge_base =
  path :: string
  chunk_size :: int
  overlap :: int

text \<open>
  \<^verbatim>\<open>Agent(name, model, knowledge, search_knowledge, description, instructions, tools, ...)\<close>.
  \<open>knowledge\<close> and \<open>search_knowledge\<close> are \<open>None\<close> and \<open>tools\<close> is empty where the
  script does not pass the argument. The model is the same for the four agents;
  description and instructions are fixed texts that only the library reads.
\<close>

record agent =
  name :: string
  knowledge :: "pdf_knowledge_base option"
  search_knowledge :: "bool option"
  tools :: "string list"

record agents =
  legal_researcher :: agent
  contract_analyst :: agent
  strategy_agent :: agent
  team_lead :: agent

subsection \<open>Effects\<close>

datatype event =
    StTitle string
  | StMarkdown string
  | StNumberInput string
  | StHeader string
  | StFileUploader string
  | StSpinner string
  | StSuccess string
  | StError string
  | StSelectbox string
  | StTextArea string
  | StButton string
  | StWarning string
  | StTabs "string list"
  | StSubheader string
  | TempWrite string
  | KBLoad pdf_knowledge_base bool bool
  | AgentRun string string

text \<open>
  A computation that can raise: the effects performed so far, and the exception or the
  value.
\<close>

type_synonym 'a io = "event list \<times> (exn + 'a)"

definition io_bind :: "'a io \<Rightarrow> ('a \<Rightarrow> 'b io) \<Rightarrow> 'b io" where
  "io_bind m f =
     (case m of
        (t, Inl e) \<Rightarrow> (t, Inl e)
      | (t, Inr x) \<Rightarrow> (case f x of (t', r) \<Rightarrow> (t @ t', r)))"

definition emit :: "event \<Rightarrow> unit io" where
  "emit ev = ([ev], Inr ())"

text \<open>
  The collaborators. \<open>'db\<close> is the content of the Chroma collection \<^verbatim>\<open>"law"\<close>.
  \<^item> \<open>write_temp\<close>: \<^verbatim>\<open>NamedTemporaryFile\<close> and \<^verbatim>\<open>write\<close>; the path, or an exception.
  \<^item> \<open>kb_load kb recreate upsert db\<close>: \<^verbatim>\<open>kb.load(recreate=..., upsert=...)\<close>; the
    exception if it raises, and the collection it leaves in either case.
  \<^item> \<open>agent_run a db prompt\<close>: \<^verbatim>\<open>a.run(prompt).content\<close>, or an exception.
\<close>

record 'db env =
  write_temp :: "string \<Rightarrow> exn + string"
  kb_load :: "pdf_knowledge_base \<Rightarrow> bool \<Rightarrow> bool \<Rightarrow> 'db \<Rightarrow> exn option \<times> 'db"
  agent_run :: "agent \<Rightarrow> 'db \<Rightarrow> string \<Rightarrow> exn + content"

definition run :: "'db env \<Rightarrow> 'db \<Rightarrow> agent \<Rightarrow> string \<Rightarrow> content io" where
  "run env db a prompt = ([AgentRun (name a) prompt], agent_run env a db prompt)"

subsection \<open>\<^verbatim>\<open>get_response\<close>\<close>

definition synthesis_prompt :: "content \<Rightarrow> content \<Rightarrow> content \<Rightarrow> string" where
  "synthesis_prompt research_response contract_response strategy_response =
     ''Summarize and integrate the following insights gathered using the full contract data:'' @ nl @ nl
     @ ''Legal Researcher Response:'' @ nl @ fmt research_response @ nl
     @ ''Contract Analyst Response:'' @ nl @ fmt contract_response @ nl
     @ ''Legal Strategy Response:'' @ nl @ fmt strategy_response @ nl
     @ ''Provide a structured legal analysis report that includes key terms, obligations, potential risks and recommendations with references to the document.''"

definition get_response :: "'db env \<Rightarrow> 'db \<Rightarrow> agents \<Rightarrow> string \<Rightarrow> content io" where
  "get_response env db ags query =
     io_bind (run env db (legal_researcher ags) query) (\<lambda>research_response.
     io_bind (run env db (contract_analyst ags) query) (\<lambda>contract_response.
     io_bind (run env db (strategy_agent ags) query) (\<lambda>strategy_response.
     run env db (team_lead ags)
       (synthesis_prompt research_response contract_response strategy_response))))"

subsection \<open>Session state and widget values\<close>

text \<open>
  \<^verbatim>\<open>st.session_state\<close>. \<open>vector_db\<close> stands for the content of the collection behind
  the \<^verbatim>\<open>ChromaDb\<close> handle, which is created once and shared by every knowledge base.
  Lines 24 to 32 initialise the three keys on the first run only: \<open>fresh_session\<close>.
\<close>

record 'db session =
  vector_db :: 'db
  knowledge_base :: "pdf_knowledge_base option"
  processed_files :: "string set"

definition fresh_session :: "'db \<Rightarrow> 'db session" where
  "fresh_session db = \<lparr>vector_db = db, knowledge_base = None, processed_files = {}\<rparr>"

record uploaded =
  file_name :: string
  getvalue :: string

datatype analysis_choice =
  ContractReview | LegalResearch | RiskAssessment | ComplianceCheck | CustomQuery

text \<open>
  The values the widgets return in one run: the two number inputs, the file uploader, the
  select box, the text area (read only when the choice is Custom Query) and the button.
\<close>

record inputs =
  chunk_size_in :: int
  overlap_in :: int
  uploaded_file :: "uploaded option"
  analysis_type :: analysis_choice
  text_area :: string
  button :: bool

text \<open>
  \<^verbatim>\<open>number_input(min_value=1, max_value=5000)\<close> and
  \<^verbatim>\<open>number_input(min_value=1, max_value=1000)\<close>: the values the widgets can return.
\<close>

definition widget_range :: "inputs \<Rightarrow> bool" where
  "widget_range inp \<longleftrightarrow>
     1 \<le> chunk_size_in inp \<and> chunk_size_in inp \<le> 5000 \<and>
     1 \<le> overlap_in inp \<and> overlap_in inp \<le> 1000"

subsection \<open>Document parsing and knowledge base (lines 35 to 67)\<close>

text \<open>Emoji are written as their UTF-8 bytes.\<close>

definition page_facing_up :: string where
  "page_facing_up = [CHR 0xF0, CHR 0x9F, CHR 0x93, CHR 0x84]"

definition check_mark :: string where
  "check_mark = [CHR 0xE2, CHR 0x9C, CHR 0x85]"

definition cross_mark :: string where
  "cross_mark = [CHR 0xE2, CHR 0x9D, CHR 0x8C]"

definition magnifier :: string where
  "magnifier = [CHR 0xF0, CHR 0x9F, CHR 0x94, CHR 0x8D]"

definition bookmark_tabs :: string where
  "bookmark_tabs = [CHR 0xF0, CHR 0x9F, CHR 0x93, CHR 0x91]"

definition pushpin :: string where
  "pushpin = [CHR 0xF0, CHR 0x9F, CHR 0x93, CHR 0x8C]"

definition clipboard :: string where
  "clipboard = [CHR 0xF0, CHR 0x9F, CHR 0x93, CHR 0x8B]"

definition processing_error :: "exn \<Rightarrow> event" where
  "processing_error e = StError (cross_mark @ '' Error processing document: '' @ exn_str e)"

text \<open>
  The body of the \<^verbatim>\<open>try\<close>. The knowledge base is assigned to the session before
  \<^verbatim>\<open>load\<close> is called; the file name is added to \<open>processed_files\<close> after it returned.
  \<^verbatim>\<open>except Exception as e\<close> (line 66) turns an instance of \<^verbatim>\<open>Exception\<close> into an
  error message, after which the script goes on; any other exception leaves the
  \<^verbatim>\<open>try\<close> and ends the run. The session keeps what was assigned before the exception.
\<close>

definition except_Exception ::
  "'db session \<Rightarrow> event list \<Rightarrow> exn \<Rightarrow> 'db session \<times> unit io" where
  "except_Exception s evs e =
     (if is_Exception e then (s, (evs @ [processing_error e], Inr ()))
      else (s, (evs, Inl e)))"

definition process_document ::
  "'db env \<Rightarrow> inputs \<Rightarrow> uploaded \<Rightarrow> 'db session \<Rightarrow> 'db session \<times> unit io" where
  "process_document env inp f s =
     (case write_temp env (getvalue f) of
        Inl e \<Rightarrow> except_Exception s [TempWrite (getvalue f)] e
      | Inr temp_path \<Rightarrow>
          (let kb = \<lparr>path = temp_path, chunk_size = chunk_size_in inp, overlap = overlap_in inp\<rparr>;
               s1 = s\<lparr>knowledge_base := Some kb\<rparr>
           in case kb_load env kb True True (vector_db s1) of
                (Some e, db') \<Rightarrow>
                  except_Exception (s1\<lparr>vector_db := db'\<rparr>)
                    [TempWrite (getvalue f), KBLoad kb True True] e
              | (None, db') \<Rightarrow>
                  (s1\<lparr>vector_db := db',
                      processed_files := insert (file_name f) (processed_files s1)\<rparr>,
                   ([TempWrite (getvalue f), KBLoad kb True True,
                     StSuccess (check_mark @ ''Document parsed and added to the knowledge base.'')],
                    Inr ()))))"

definition sidebar_widgets :: "event list" where
  "sidebar_widgets =
     [StNumberInput ''Chunk Size'', StNumberInput ''Overlap'',
      StHeader (page_facing_up @ '' Upload Document''),
      StFileUploader ''Upload legal document (PDF)'']"

definition sidebar :: "'db env \<Rightarrow> inputs \<Rightarrow> 'db session \<Rightarrow> 'db session \<times> unit io" where
  "sidebar env inp s =
     (case uploaded_file inp of
        None \<Rightarrow> (s, (sidebar_widgets, Inr ()))
      | Some f \<Rightarrow>
          if file_name f \<notin> processed_files s
          then (case process_document env inp f s of
                  (s', (evs, r)) \<Rightarrow>
                    (s', (sidebar_widgets @ [StSpinner ''Processing document...''] @ evs, r)))
          else (s, (sidebar_widgets, Inr ())))"

subsection \<open>Agents (lines 70 to 138)\<close>

text \<open>
  \<^verbatim>\<open>if st.session_state.knowledge_base:\<close> is false for \<^verbatim>\<open>None\<close> and true for a
  knowledge base object. The four agents and \<^verbatim>\<open>get_response\<close> exist only then.
\<close>

definition make_agents :: "'db session \<Rightarrow> agents option" where
  "make_agents s =
     (if knowledge_base s \<noteq> None
      then Some
        \<lparr>legal_researcher =
           \<lparr>name = ''Legal Researcher'', knowledge = knowledge_base s, search_knowledge = Some True,
            tools = [''DuckDuckGo'', ''WikipediaTools'']\<rparr>,
         contract_analyst =
           \<lparr>name = ''Contract Analyst'', knowledge = knowledge_base s, search_knowledge = Some True,
            tools = []\<rparr>,
         strategy_agent =
           \<lparr>name = ''Legal Strategy Agent'', knowledge = knowledge_base s, search_knowledge = Some True,
            tools = []\<rparr>,
         team_lead =
           \<lparr>name = ''Team Lead'', knowledge = None, search_knowledge = None, tools = []\<rparr>\<rparr>
      else None)"

subsection \<open>App (lines 141 to 198)\<close>

definition predefined_queries :: "analysis_choice \<Rightarrow> string option" where
  "predefined_queries t =
     (case t of
        ContractReview \<Rightarrow> Some
          (''Analyze this document, contract, or agreement using all available data from the knowledge base. ''
           @ ''Identify key terms, obligations, and risks in detail.'')
      | LegalResearch \<Rightarrow> Some
          (''Using all available data from the knowledge base, find relevant legal cases and precedents related to this document, contract, or agreement. ''
           @ ''Provide detailed references and sources.'')
      | RiskAssessment \<Rightarrow> Some
          (''Extract all data from the knowledge base and identify potential legal risks in this document, contract, or agreement. ''
           @ ''Detail specific risk areas and reference sections of the text.'')
      | ComplianceCheck \<Rightarrow> Some
          (''Evaluate this document, contract, or agreement for compliance with legal regulations using all available data from the knowledge base. ''
           @ ''Highlight any areas of concern and suggest corrective actions.'')
      | CustomQuery \<Rightarrow> None)"

text \<open>
  The value of \<^verbatim>\<open>query\<close> at the button. The dictionary is indexed only with the four
  choices that are its keys.
\<close>

definition query_of :: "inputs \<Rightarrow> string" where
  "query_of inp =
     (if analysis_type inp = CustomQuery then text_area inp
      else (case predefined_queries (analysis_type inp) of Some q \<Rightarrow> q | None \<Rightarrow> []))"

definition key_points_prompt :: "content \<Rightarrow> string" where
  "key_points_prompt c = ''Summarize the key legal points from this analysis:'' @ nl @ fmt c"

definition recommendations_prompt :: "content \<Rightarrow> string" where
  "recommendations_prompt c =
     ''Provide specific legal recommendations based on this analysis:'' @ nl @ fmt c"

text \<open>\<^verbatim>\<open>x.content if x.content else placeholder\<close>.\<close>

definition content_or :: "content \<Rightarrow> string \<Rightarrow> string" where
  "content_or c placeholder = (if truthy c then fmt c else placeholder)"

text \<open>
  The three \<^verbatim>\<open>with tabs[i]:\<close> blocks. A \<^verbatim>\<open>with\<close> block is executed where it stands:
  the three bodies run one after the other in every run that reaches them.
\<close>

definition show_tabs :: "'db env \<Rightarrow> 'db \<Rightarrow> agents \<Rightarrow> content \<Rightarrow> unit io" where
  "show_tabs env db ags response =
     io_bind (emit (StTabs [''Analysis'', ''Key Points'', ''Recommendations''])) (\<lambda>_.
     io_bind (emit (StSubheader (bookmark_tabs @ '' Detailed Analysis''))) (\<lambda>_.
     io_bind (emit (StMarkdown (content_or response ''No response generated.''))) (\<lambda>_.
     io_bind (emit (StSubheader (pushpin @ '' Key Points Summary''))) (\<lambda>_.
     io_bind (run env db (team_lead ags) (key_points_prompt response)) (\<lambda>key_points_response.
     io_bind (emit (StMarkdown (content_or key_points_response ''No summary generated.''))) (\<lambda>_.
     io_bind (emit (StSubheader (clipboard @ '' Recommendations''))) (\<lambda>_.
     io_bind (run env db (team_lead ags) (recommendations_prompt response)) (\<lambda>recommendations_response.
     emit (StMarkdown (content_or recommendations_response ''No recommendations generated.''))))))))))"

definition analyze :: "'db env \<Rightarrow> 'db \<Rightarrow> agents \<Rightarrow> string \<Rightarrow> unit io" where
  "analyze env db ags query =
     (if query = [] then emit (StWarning ''Please enter a query.'')
      else io_bind (emit (StSpinner ''Analyzing...'')) (\<lambda>_.
           io_bind (get_response env db ags query) (\<lambda>response.
           show_tabs env db ags response)))"

definition app_widgets :: "inputs \<Rightarrow> event list" where
  "app_widgets inp =
     [StHeader (magnifier @ '' Select Analysis Type''), StSelectbox ''Choose Analysis Type:'']
     @ (if analysis_type inp = CustomQuery then [StTextArea ''Enter your custom legal question:''] else [])
     @ [StButton ''Analyze'']"

definition app :: "'db env \<Rightarrow> inputs \<Rightarrow> 'db session \<Rightarrow> agents option \<Rightarrow> unit io" where
  "app env inp s ags_opt =
     (case ags_opt of
        None \<Rightarrow> ([], Inr ())
      | Some ags \<Rightarrow>
          io_bind (app_widgets inp, Inr ()) (\<lambda>_.
          if button inp then analyze env (vector_db s) ags (query_of inp) else ([], Inr ())))"

subsection \<open>One run of the script\<close>

definition page_top :: "event list" where
  "page_top =
     [StTitle (''AI Law Firm '' @ [CHR 0xF0, CHR 0x9F, CHR 0x8E, CHR 0x93]),
      StMarkdown ''This is a legal agent that can answer questions about law, legal documents, and provide legal advice. It analyzes your legal documents and provide you legal strategies and guidance along with risk analysis.'']"

text \<open>
  The new session, the effects in program order, and the exception that ended the run, if
  one escaped: from the sidebar an exception that \<^verbatim>\<open>except Exception\<close> does not catch,
  from the app section any exception (nothing there catches).
\<close>

definition script :: "'db env \<Rightarrow> inputs \<Rightarrow> 'db session \<Rightarrow> 'db session \<times> unit io" where
  "script env inp s =
     (case sidebar env inp s of
        (s1, (evs1, Inl e)) \<Rightarrow> (s1, (page_top @ evs1, Inl e))
      | (s1, (evs1, Inr _)) \<Rightarrow>
          (case app env inp s1 (make_agents s1) of
             (evs2, r) \<Rightarrow> (s1, (page_top @ evs1 @ evs2, r))))"

text \<open>What a run, or the sidebar alone, did.\<close>

definition events :: "'db session \<times> unit io \<Rightarrow> event list" where
  "events r = fst (snd r)"

definition outcome :: "'db session \<times> unit io \<Rightarrow> exn + unit" where
  "outcome r = snd (snd r)"

fun agent_runs :: "event list \<Rightarrow> (string \<times> string) list" where
  "agent_runs [] = []"
| "agent_runs (AgentRun a p # evs) = (a, p) # agent_runs evs"
| "agent_runs (_ # evs) = agent_runs evs"


subsection \<open>The labelled responses\<close>

text \<open>
  The three responses under their headers, in the order Researcher, Contract Analyst,
  Strategy: the three middle lines of the f-string in \<^verbatim>\<open>get_response\<close>.
\<close>

definition labeled_responses :: "content \<Rightarrow> content \<Rightarrow> content \<Rightarrow> string" where
  "labeled_responses research_response contract_response strategy_response =
     ''Legal Researcher Response:'' @ nl @ fmt research_response @ nl
     @ ''Contract Analyst Response:'' @ nl @ fmt contract_response @ nl
     @ ''Legal Strategy Response:'' @ nl @ fmt strategy_response @ nl"

subsection \<open>Concrete collaborators and widget values\<close>

text \<open>
  A collection is described by the list of chunk sets in it, each named by the file it was
  cut from and the chunking parameters. \<open>stub_env\<close>: the file write and \<^verbatim>\<open>load\<close>
  succeed (\<^verbatim>\<open>recreate\<close> empties the collection first), every agent answers with a
  fixed text.
\<close>

type_synonym collection = "(string \<times> int \<times> int) list"

definition stub_env :: "collection env" where
  "stub_env =
     \<lparr>write_temp = (\<lambda>bytes. Inr ''/tmp/tmpdoc.pdf''),
      kb_load = (\<lambda>kb recreate upsert db.
        (None, (if recreate then [] else db) @ [(path kb, chunk_size kb, overlap kb)])),
      agent_run = (\<lambda>a db prompt. Inr (Some (''reply of '' @ name a)))\<rparr>"

text \<open>\<open>unreadable_env\<close>: \<^verbatim>\<open>load\<close> raises and leaves the collection as it was.\<close>

definition unreadable_env :: "collection env" where
  "unreadable_env =
     stub_env\<lparr>kb_load := (\<lambda>kb recreate upsert db.
        (Some (Exn ''PdfReadError'' ''EOF marker not found''), db))\<rparr>"

text \<open>\<open>interrupted_env\<close>: \<^verbatim>\<open>load\<close> is interrupted from the keyboard.\<close>

definition interrupted_env :: "collection env" where
  "interrupted_env =
     stub_env\<lparr>kb_load := (\<lambda>kb recreate upsert db.
        (Some (BaseExn ''KeyboardInterrupt'' []), db))\<rparr>"

text \<open>\<open>outage_env\<close>: the Contract Analyst's model call raises.\<close>

definition outage_env :: "collection env" where
  "outage_env =
     stub_env\<lparr>agent_run := (\<lambda>a db prompt.
        if name a = ''Contract Analyst'' then Inl (Exn ''InferenceError'' ''model unavailable'')
        else Inr (Some (''reply of '' @ name a)))\<rparr>"

text \<open>
  \<open>terse_env\<close>: the Team Lead returns a report for the synthesis prompt, the empty text
  for the key points prompt and \<^verbatim>\<open>None\<close> for the recommendations prompt.
\<close>

definition terse_env :: "collection env" where
  "terse_env =
     stub_env\<lparr>agent_run := (\<lambda>a db prompt.
        if name a = ''Team Lead''
        then (if take 14 prompt = ''Summarize and '' then Inr (Some ''The report.'')
              else if take 14 prompt = ''Summarize the '' then Inr (Some [])
              else Inr None)
        else Inr (Some (''reply of '' @ name a)))\<rparr>"

definition contract_pdf :: uploaded where
  "contract_pdf = \<lparr>file_name = ''contract.pdf'', getvalue = ''%PDF-1.4''\<rparr>"

definition first_upload :: inputs where
  "first_upload =
     \<lparr>chunk_size_in = 1000, overlap_in = 200, uploaded_file = Some contract_pdf,
      analysis_type = ContractReview, text_area = [], button = False\<rparr>"


definition overlap_exceeds :: inputs where
  "overlap_exceeds = first_upload\<lparr>chunk_size_in := 100, overlap_in := 200\<rparr>"

definition click_analyze :: inputs where
  "click_analyze = first_upload\<lparr>button := True\<rparr>"

definition empty_custom :: inputs where
  "empty_custom = first_upload\<lparr>analysis_type := CustomQuery, text_area := [], button := True\<rparr>"

definition space_custom :: inputs where
  "space_custom = first_upload\<lparr>analysis_type := CustomQuery, text_area := '' '', button := True\<rparr>"

definition no_upload :: inputs where
  "no_upload = first_upload\<lparr>uploaded_file := None, button := True\<rparr>"

text \<open>The session after \<open>contract.pdf\<close> was indexed with 1000 and 200.\<close>

definition indexed_session :: "collection session" where
  "indexed_session =
     \<lparr>vector_db = [(''/tmp/tmpdoc.pdf'', 1000, 200)],
      knowledge_base = Some \<lparr>path = ''/tmp/tmpdoc.pdf'', chunk_size = 1000, overlap = 200\<rparr>,
      processed_files = {''contract.pdf''}\<rparr>"

text \<open>A second document, uploaded in the session that already holds \<open>contract.pdf\<close>.\<close>

definition lease_upload :: inputs where
  "lease_upload =
     first_upload\<lparr>chunk_size_in := 800, overlap_in := 100,
       uploaded_file := Some \<lparr>file_name = ''lease.pdf'', getvalue = ''%PDF-1.7''\<rparr>\<rparr>"

text \<open>The agents the script builds in that session.\<close>

definition indexed_agents :: agents where
  "indexed_agents =
     \<lparr>legal_researcher =
        \<lparr>name = ''Legal Researcher'',
         knowledge = Some \<lparr>path = ''/tmp/tmpdoc.pdf'', chunk_size = 1000, overlap = 200\<rparr>,
         search_knowledge = Some True, tools = [''DuckDuckGo'', ''WikipediaTools'']\<rparr>,
      contract_analyst =
        \<lparr>name = ''Contract Analyst'',
         knowledge = Some \<lparr>path = ''/tmp/tmpdoc.pdf'', chunk_size = 1000, overlap = 200\<rparr>,
         search_knowledge = Some True, tools = []\<rparr>,
      strategy_agent =
        \<lparr>name = ''Legal Strategy Agent'',
         knowledge = Some \<lparr>path = ''/tmp/tmpdoc.pdf'', chunk_size = 1000, overlap = 200\<rparr>,
         search_knowledge = Some True, tools = []\<rparr>,
      team_lead =
        \<lparr>name = ''Team Lead'', knowledge = None, search_knowledge = None, tools = []\<rparr>\<rparr>"

section \<open>Properties\<close>

subsection \<open>Sequencing and traces\<close>

lemma io_bind_Inl [simp]: "io_bind (t, Inl e) f = (t, Inl e)"
  by (simp add: io_bind_def)

lemma io_bind_Inr [simp]: "io_bind (t, Inr x) f = (t @ fst (f x), snd (f x))"
  by (simp add: io_bind_def split: prod.splits)

lemma io_bind_emit [simp]: "io_bind (emit ev) f = (ev # fst (f ()), snd (f ()))"
  by (simp add: emit_def)

lemma agent_runs_append [simp]: "agent_runs (xs @ ys) = agent_runs xs @ agent_runs ys"
  by (induction xs rule: agent_runs.induct) simp_all

lemma run_Inr:
  "agent_run env a db p = Inr c \<Longrightarrow> run env db a p = ([AgentRun (name a) p], Inr c)"
  by (simp add: run_def)

lemma run_Inl:
  "agent_run env a db p = Inl e \<Longrightarrow> run env db a p = ([AgentRun (name a) p], Inl e)"
  by (simp add: run_def)

lemma events_triple [simp]: "events (s, evs, r) = evs"
  by (simp add: events_def)

lemma outcome_triple [simp]: "outcome (s, evs, r) = r"
  by (simp add: outcome_def)

lemma fst_script: "fst (script env inp s) = fst (sidebar env inp s)"
  by (cases "sidebar env inp s") (auto simp: script_def split: prod.splits sum.splits)

lemma script_reaches_app:
  assumes "outcome (sidebar env inp s) = Inr ()"
  shows "script env inp s =
     (fst (sidebar env inp s),
      page_top @ events (sidebar env inp s)
        @ fst (app env inp (fst (sidebar env inp s)) (make_agents (fst (sidebar env inp s)))),
      snd (app env inp (fst (sidebar env inp s)) (make_agents (fst (sidebar env inp s)))))"
  using assms
  by (cases "sidebar env inp s") (auto simp: script_def events_def outcome_def split: prod.splits)

lemma script_ends_in_sidebar:
  assumes "outcome (sidebar env inp s) = Inl e"
  shows "script env inp s = (fst (sidebar env inp s), page_top @ events (sidebar env inp s), Inl e)"
  using assms
  by (cases "sidebar env inp s") (auto simp: script_def events_def outcome_def)

lemma agent_runs_page_top [simp]: "agent_runs page_top = []"
  by (simp add: page_top_def)

lemma agent_runs_app_widgets [simp]: "agent_runs (app_widgets inp) = []"
  by (simp add: app_widgets_def)

lemma agent_runs_sidebar_widgets [simp]: "agent_runs sidebar_widgets = []"
  by (simp add: sidebar_widgets_def)

lemma agent_runs_process_document [simp]:
  "agent_runs (events (process_document env inp f s)) = []"
  by (simp add: process_document_def except_Exception_def processing_error_def events_def Let_def
      split: sum.splits prod.splits option.splits)

lemma agent_runs_sidebar [simp]: "agent_runs (events (sidebar env inp s)) = []"
proof (cases "uploaded_file inp")
  case None
  then show ?thesis by (simp add: sidebar_def events_def)
next
  case (Some f)
  obtain s' evs r where p: "process_document env inp f s = (s', evs, r)"
    by (cases "process_document env inp f s") auto
  with agent_runs_process_document [of env inp f s] have "agent_runs evs = []"
    by (simp add: events_def)
  with Some p show ?thesis by (simp add: sidebar_def events_def)
qed

lemma make_agents_names:
  assumes "make_agents s = Some ags"
  shows "name (legal_researcher ags) = ''Legal Researcher''"
    and "name (contract_analyst ags) = ''Contract Analyst''"
    and "name (strategy_agent ags) = ''Legal Strategy Agent''"
    and "name (team_lead ags) = ''Team Lead''"
    and "knowledge_base s \<noteq> None"
  using assms by (auto simp: make_agents_def split: if_splits)

lemma make_agents_team_lead:
  assumes "make_agents s = Some ags"
  shows "team_lead ags =
     \<lparr>name = ''Team Lead'', knowledge = None, search_knowledge = None, tools = []\<rparr>"
  using assms by (auto simp: make_agents_def split: if_splits)

subsection \<open>Successful and failed analyses\<close>

lemma get_response_ok:
  assumes "agent_run env (legal_researcher ags) db query = Inr r"
      and "agent_run env (contract_analyst ags) db query = Inr c"
      and "agent_run env (strategy_agent ags) db query = Inr g"
  shows "get_response env db ags query =
     ([AgentRun (name (legal_researcher ags)) query,
       AgentRun (name (contract_analyst ags)) query,
       AgentRun (name (strategy_agent ags)) query,
       AgentRun (name (team_lead ags)) (synthesis_prompt r c g)],
      agent_run env (team_lead ags) db (synthesis_prompt r c g))"
  using assms by (simp add: get_response_def run_Inr run_def)

lemma get_response_fails:
  assumes "agent_run env (legal_researcher ags) db q = Inl e
         \<or> agent_run env (contract_analyst ags) db q = Inl e
         \<or> agent_run env (strategy_agent ags) db q = Inl e"
  shows "\<exists>evs e'. get_response env db ags q = (evs, Inl e') \<and>
           set evs \<subseteq> {AgentRun (name (legal_researcher ags)) q,
                       AgentRun (name (contract_analyst ags)) q,
                       AgentRun (name (strategy_agent ags)) q}"
proof (cases "agent_run env (legal_researcher ags) db q")
  case (Inl a)
  then show ?thesis by (simp add: get_response_def run_Inl)
next
  case r: (Inr a)
  show ?thesis
  proof (cases "agent_run env (contract_analyst ags) db q")
    case (Inl b)
    with r show ?thesis by (simp add: get_response_def run_Inl run_Inr)
  next
    case c: (Inr b)
    with r assms have "agent_run env (strategy_agent ags) db q = Inl e" by simp
    with r c show ?thesis by (simp add: get_response_def run_Inl run_Inr)
  qed
qed

lemma show_tabs_events:
  "show_tabs env db ags c0 =
     ([StTabs [''Analysis'', ''Key Points'', ''Recommendations''],
       StSubheader (bookmark_tabs @ '' Detailed Analysis''),
       StMarkdown (content_or c0 ''No response generated.''),
       StSubheader (pushpin @ '' Key Points Summary''),
       AgentRun (name (team_lead ags)) (key_points_prompt c0)]
      @ (case agent_run env (team_lead ags) db (key_points_prompt c0) of
           Inl e \<Rightarrow> []
         | Inr c1 \<Rightarrow>
             [StMarkdown (content_or c1 ''No summary generated.''),
              StSubheader (clipboard @ '' Recommendations''),
              AgentRun (name (team_lead ags)) (recommendations_prompt c0)]
             @ (case agent_run env (team_lead ags) db (recommendations_prompt c0) of
                  Inl e \<Rightarrow> []
                | Inr c2 \<Rightarrow> [StMarkdown (content_or c2 ''No recommendations generated.'')])),
      (case agent_run env (team_lead ags) db (key_points_prompt c0) of
         Inl e \<Rightarrow> Inl e
       | Inr c1 \<Rightarrow>
           (case agent_run env (team_lead ags) db (recommendations_prompt c0) of
              Inl e \<Rightarrow> Inl e
            | Inr c2 \<Rightarrow> Inr ())))"
  by (simp add: show_tabs_def run_def emit_def io_bind_def split: sum.splits prod.splits)

lemma show_tabs_ok:
  assumes "agent_run env (team_lead ags) db (key_points_prompt c0) = Inr c1"
      and "agent_run env (team_lead ags) db (recommendations_prompt c0) = Inr c2"
  shows "show_tabs env db ags c0 =
     ([StTabs [''Analysis'', ''Key Points'', ''Recommendations''],
       StSubheader (bookmark_tabs @ '' Detailed Analysis''),
       StMarkdown (content_or c0 ''No response generated.''),
       StSubheader (pushpin @ '' Key Points Summary''),
       AgentRun (name (team_lead ags)) (key_points_prompt c0),
       StMarkdown (content_or c1 ''No summary generated.''),
       StSubheader (clipboard @ '' Recommendations''),
       AgentRun (name (team_lead ags)) (recommendations_prompt c0),
       StMarkdown (content_or c2 ''No recommendations generated.'')], Inr ())"
  using assms by (simp add: show_tabs_events)

lemma analyze_ok:
  assumes "query \<noteq> []"
      and "agent_run env (legal_researcher ags) db query = Inr r"
      and "agent_run env (contract_analyst ags) db query = Inr c"
      and "agent_run env (strategy_agent ags) db query = Inr g"
      and "agent_run env (team_lead ags) db (synthesis_prompt r c g) = Inr c0"
      and "agent_run env (team_lead ags) db (key_points_prompt c0) = Inr c1"
      and "agent_run env (team_lead ags) db (recommendations_prompt c0) = Inr c2"
  shows "analyze env db ags query =
     ([StSpinner ''Analyzing...'',
       AgentRun (name (legal_researcher ags)) query,
       AgentRun (name (contract_analyst ags)) query,
       AgentRun (name (strategy_agent ags)) query,
       AgentRun (name (team_lead ags)) (synthesis_prompt r c g),
       StTabs [''Analysis'', ''Key Points'', ''Recommendations''],
       StSubheader (bookmark_tabs @ '' Detailed Analysis''),
       StMarkdown (content_or c0 ''No response generated.''),
       StSubheader (pushpin @ '' Key Points Summary''),
       AgentRun (name (team_lead ags)) (key_points_prompt c0),
       StMarkdown (content_or c1 ''No summary generated.''),
       StSubheader (clipboard @ '' Recommendations''),
       AgentRun (name (team_lead ags)) (recommendations_prompt c0),
       StMarkdown (content_or c2 ''No recommendations generated.'')], Inr ())"
  using assms
  by (simp add: analyze_def get_response_ok [OF assms(2-4)] show_tabs_ok [OF assms(6,7)])

lemma analyze_report:
  assumes "query \<noteq> []"
      and "agent_run env (legal_researcher ags) db query = Inr r"
      and "agent_run env (contract_analyst ags) db query = Inr c"
      and "agent_run env (strategy_agent ags) db query = Inr g"
      and "agent_run env (team_lead ags) db (synthesis_prompt r c g) = Inr c0"
  shows "fst (analyze env db ags query) =
     [StSpinner ''Analyzing...'',
      AgentRun (name (legal_researcher ags)) query,
      AgentRun (name (contract_analyst ags)) query,
      AgentRun (name (strategy_agent ags)) query,
      AgentRun (name (team_lead ags)) (synthesis_prompt r c g)]
     @ fst (show_tabs env db ags c0)"
  using assms by (simp add: analyze_def get_response_ok [OF assms(2-4)])

lemma app_analyze:
  "button inp \<Longrightarrow>
   app env inp s (Some ags) =
     (app_widgets inp @ fst (analyze env (vector_db s) ags (query_of inp)),
      snd (analyze env (vector_db s) ags (query_of inp)))"
  by (simp add: app_def)

lemma make_agents_indexed: "make_agents indexed_session = Some indexed_agents"
  by (simp add: indexed_agents_def make_agents_def indexed_session_def)

lemma sidebar_processed:
  "uploaded_file inp = Some f \<Longrightarrow> file_name f \<in> processed_files s \<Longrightarrow>
   sidebar env inp s = (s, (sidebar_widgets, Inr ()))"
  by (simp add: sidebar_def)

lemma sidebar_indexed [simp]:
  "uploaded_file inp = Some contract_pdf \<Longrightarrow>
   sidebar env inp indexed_session = (indexed_session, (sidebar_widgets, Inr ()))"
  using sidebar_processed [of inp contract_pdf indexed_session env]
  by (simp add: contract_pdf_def indexed_session_def)

lemma script_indexed:
  assumes "uploaded_file inp = Some contract_pdf"
  shows "script env inp indexed_session =
     (indexed_session,
      page_top @ sidebar_widgets @ fst (app env inp indexed_session (Some indexed_agents)),
      snd (app env inp indexed_session (Some indexed_agents)))"
  using script_reaches_app [of env inp indexed_session] assms
  by (simp add: make_agents_indexed)

subsection \<open>The synthesis input\<close>

text \<open>
  C1, as the code has it. When the three analysis agents return, \<^verbatim>\<open>get_response\<close>
  has run them on the query in the order Legal Researcher, Contract Analyst, Legal
  Strategy Agent, and runs the Team Lead once, on the fixed opening instruction, followed
  by the three responses under their headers in that order, followed by the fixed closing
  instruction.
\<close>

theorem synthesis_input:
  assumes "agent_run env (legal_researcher ags) db query = Inr r"
      and "agent_run env (contract_analyst ags) db query = Inr c"
      and "agent_run env (strategy_agent ags) db query = Inr g"
  shows "fst (get_response env db ags query) =
     [AgentRun (name (legal_researcher ags)) query,
      AgentRun (name (contract_analyst ags)) query,
      AgentRun (name (strategy_agent ags)) query,
      AgentRun (name (team_lead ags))
        (''Summarize and integrate the following insights gathered using the full contract data:'' @ nl @ nl
         @ labeled_responses r c g
         @ ''Provide a structured legal analysis report that includes key terms, obligations, potential risks and recommendations with references to the document.'')]"
  using get_response_ok [OF assms]
  by (simp add: synthesis_prompt_def labeled_responses_def)

theorem synthesis_input_witness:
  "agent_run stub_env (legal_researcher indexed_agents) [] ''What is the term?''
     = Inr (Some ''reply of Legal Researcher'') \<and>
   agent_run stub_env (contract_analyst indexed_agents) [] ''What is the term?''
     = Inr (Some ''reply of Contract Analyst'') \<and>
   agent_run stub_env (strategy_agent indexed_agents) [] ''What is the term?''
     = Inr (Some ''reply of Legal Strategy Agent'') \<and>
   agent_runs (fst (get_response stub_env [] indexed_agents ''What is the term?'')) =
     [(''Legal Researcher'', ''What is the term?''),
      (''Contract Analyst'', ''What is the term?''),
      (''Legal Strategy Agent'', ''What is the term?''),
      (''Team Lead'',
        ''Summarize and integrate the following insights gathered using the full contract data:'' @ nl @ nl
         @ ''Legal Researcher Response:'' @ nl @ ''reply of Legal Researcher'' @ nl
         @ ''Contract Analyst Response:'' @ nl @ ''reply of Contract Analyst'' @ nl
         @ ''Legal Strategy Response:'' @ nl @ ''reply of Legal Strategy Agent'' @ nl
         @ ''Provide a structured legal analysis report that includes key terms, obligations, potential risks and recommendations with references to the document.'')]"
proof -
  have a: "agent_run stub_env (legal_researcher indexed_agents) [] ''What is the term?''
      = Inr (Some ''reply of Legal Researcher'')"
    by (simp add: stub_env_def indexed_agents_def)
  have b: "agent_run stub_env (contract_analyst indexed_agents) [] ''What is the term?''
      = Inr (Some ''reply of Contract Analyst'')"
    by (simp add: stub_env_def indexed_agents_def)
  have c: "agent_run stub_env (strategy_agent indexed_agents) [] ''What is the term?''
      = Inr (Some ''reply of Legal Strategy Agent'')"
    by (simp add: stub_env_def indexed_agents_def)
  show ?thesis
    using a b c synthesis_input [OF a b c] make_agents_names [OF make_agents_indexed]
    by (simp add: labeled_responses_def fmt_def)
qed

text \<open>
  With the three stub agents the Team Lead's input is not the labelled responses alone: it
  begins with the opening instruction.
\<close>

theorem synthesis_input_counterexample:
  "snd (last (agent_runs (fst (get_response stub_env [] indexed_agents ''What is the term?'')))) \<noteq>
     labeled_responses (Some ''reply of Legal Researcher'') (Some ''reply of Contract Analyst'')
       (Some ''reply of Legal Strategy Agent'')"
  by (simp add: get_response_def run_def stub_env_def synthesis_prompt_def
      labeled_responses_def fmt_def)

subsection \<open>A failing analysis agent\<close>

text \<open>
  C3. In a run where the Analyze button was pressed with a non-empty query and one of the
  three analysis agents (Legal Researcher, Contract Analyst, Legal Strategy Agent) raises,
  the run ends with an exception and the Team Lead is not run at all.
\<close>

theorem analysis_failure_is_fatal:
  assumes ags: "make_agents (fst (script env inp s)) = Some ags"
      and click: "button inp" "query_of inp \<noteq> []"
      and fails:
        "agent_run env (legal_researcher ags) (vector_db (fst (script env inp s))) (query_of inp) = Inl e
         \<or> agent_run env (contract_analyst ags) (vector_db (fst (script env inp s))) (query_of inp) = Inl e
         \<or> agent_run env (strategy_agent ags) (vector_db (fst (script env inp s))) (query_of inp) = Inl e"
  shows "isl (outcome (script env inp s)) \<and>
         ''Team Lead'' \<notin> fst ` set (agent_runs (events (script env inp s)))"
proof (cases "outcome (sidebar env inp s)")
  case (Inl x)
  from script_ends_in_sidebar [OF this] show ?thesis
    by simp
next
  case (Inr u)
  then have reached: "outcome (sidebar env inp s) = Inr ()" by simp
  let ?s1 = "fst (sidebar env inp s)"
  have s1: "fst (script env inp s) = ?s1" by (rule fst_script)
  from get_response_fails [OF fails] obtain evs e' where
    g: "get_response env (vector_db ?s1) ags (query_of inp) = (evs, Inl e')" and
    sub: "set evs \<subseteq> {AgentRun (name (legal_researcher ags)) (query_of inp),
                     AgentRun (name (contract_analyst ags)) (query_of inp),
                     AgentRun (name (strategy_agent ags)) (query_of inp)}"
    unfolding s1 by blast
  have an: "analyze env (vector_db ?s1) ags (query_of inp)
      = (StSpinner ''Analyzing...'' # evs, Inl e')"
    using click g by (simp add: analyze_def)
  have ev: "events (script env inp s)
      = page_top @ events (sidebar env inp s) @ app_widgets inp @ StSpinner ''Analyzing...'' # evs"
    and out: "outcome (script env inp s) = Inl e'"
    using ags click(1) an unfolding s1
    by (simp_all add: script_reaches_app [OF reached] app_analyze)
  have "fst ` set (agent_runs evs)
      \<subseteq> {''Legal Researcher'', ''Contract Analyst'', ''Legal Strategy Agent''}"
    using sub make_agents_names(1-3) [OF ags]
  proof (induction evs)
    case Nil
    then show ?case by simp
  next
    case (Cons a evs)
    then show ?case by (cases a) auto
  qed
  then have "''Team Lead'' \<notin> fst ` set (agent_runs evs)" by auto
  with ev out show ?thesis by simp
qed

theorem analysis_failure_is_fatal_witness:
  "make_agents (fst (script outage_env click_analyze indexed_session)) = Some indexed_agents \<and>
   button click_analyze \<and> query_of click_analyze \<noteq> [] \<and>
   agent_run outage_env (contract_analyst indexed_agents)
     (vector_db (fst (script outage_env click_analyze indexed_session))) (query_of click_analyze)
     = Inl (Exn ''InferenceError'' ''model unavailable'') \<and>
   isl (outcome (script outage_env click_analyze indexed_session)) \<and>
   ''Team Lead'' \<notin> fst ` set (agent_runs (events (script outage_env click_analyze indexed_session)))"
proof -
  have up: "uploaded_file click_analyze = Some contract_pdf"
    by (simp add: click_analyze_def first_upload_def)
  have s1: "fst (script outage_env click_analyze indexed_session) = indexed_session"
    by (simp add: fst_script up)
  have a: "make_agents (fst (script outage_env click_analyze indexed_session)) = Some indexed_agents"
    by (simp add: s1 make_agents_indexed)
  have b: "button click_analyze"
    by (simp add: click_analyze_def first_upload_def)
  have q: "query_of click_analyze \<noteq> []"
    by (simp add: query_of_def click_analyze_def first_upload_def predefined_queries_def)
  have f: "agent_run outage_env (contract_analyst indexed_agents)
     (vector_db (fst (script outage_env click_analyze indexed_session))) (query_of click_analyze)
     = Inl (Exn ''InferenceError'' ''model unavailable'')"
    by (simp add: outage_env_def stub_env_def indexed_agents_def)
  from analysis_failure_is_fatal [OF a b q disjI2 [OF disjI1 [OF f]]] a b q f
  show ?thesis by blast
qed

subsection \<open>Runs of the concrete collaborators\<close>

lemma stub_run [simp]: "agent_run stub_env a db p = Inr (Some (''reply of '' @ name a))"
  by (simp add: stub_env_def)

lemma click_analyze_simps:
  "uploaded_file click_analyze = Some contract_pdf"
  "button click_analyze"
  "query_of click_analyze \<noteq> []"
  "analysis_type click_analyze = ContractReview"
  by (simp_all add: click_analyze_def first_upload_def query_of_def predefined_queries_def)

lemma indexed_names:
  "name (legal_researcher indexed_agents) = ''Legal Researcher''"
  "name (contract_analyst indexed_agents) = ''Contract Analyst''"
  "name (strategy_agent indexed_agents) = ''Legal Strategy Agent''"
  "name (team_lead indexed_agents) = ''Team Lead''"
  using make_agents_names(1-4) [OF make_agents_indexed] by simp_all

lemma terse_run:
  "agent_run terse_env (legal_researcher indexed_agents) db q = Inr (Some ''reply of Legal Researcher'')"
  "agent_run terse_env (contract_analyst indexed_agents) db q = Inr (Some ''reply of Contract Analyst'')"
  "agent_run terse_env (strategy_agent indexed_agents) db q = Inr (Some ''reply of Legal Strategy Agent'')"
  "agent_run terse_env (team_lead indexed_agents) db (synthesis_prompt a b c) = Inr (Some ''The report.'')"
  "agent_run terse_env (team_lead indexed_agents) db (key_points_prompt a) = Inr (Some [])"
  "agent_run terse_env (team_lead indexed_agents) db (recommendations_prompt a) = Inr None"
  by (simp_all add: terse_env_def stub_env_def indexed_names synthesis_prompt_def
      key_points_prompt_def recommendations_prompt_def)

lemma no_widgets_in_sidebar:
  "StSelectbox l \<notin> set (events (sidebar env inp s))"
  "StButton l \<notin> set (events (sidebar env inp s))"
  by (auto simp: sidebar_def sidebar_widgets_def process_document_def except_Exception_def
      processing_error_def events_def Let_def
      split: option.splits prod.splits sum.splits if_splits)

subsection \<open>The empty custom query\<close>

text \<open>
  C7, for the empty text. With a knowledge base in the session, in a run that the
  document processing did not end, pressing Analyze on the choice Custom Query with an
  empty text area runs no agent: the run shows the warning
  \<^verbatim>\<open>Please enter a query.\<close> after the widgets and ends normally.
\<close>

theorem empty_custom_query_warns:
  assumes "analysis_type inp = CustomQuery" and "text_area inp = []" and "button inp"
      and "knowledge_base (fst (script env inp s)) \<noteq> None"
      and "outcome (sidebar env inp s) = Inr ()"
  shows "agent_runs (events (script env inp s)) = [] \<and>
         events (script env inp s) =
           page_top @ events (sidebar env inp s) @ app_widgets inp
             @ [StWarning ''Please enter a query.''] \<and>
         outcome (script env inp s) = Inr ()"
proof -
  have q: "query_of inp = []" using assms(1,2) by (simp add: query_of_def)
  from assms(4) obtain ags where "make_agents (fst (sidebar env inp s)) = Some ags"
    by (auto simp: fst_script make_agents_def)
  then show ?thesis
    using assms(3) q
    by (simp add: script_reaches_app [OF assms(5)] app_analyze analyze_def emit_def)
qed

theorem empty_custom_query_warns_witness:
  "analysis_type empty_custom = CustomQuery \<and> text_area empty_custom = [] \<and> button empty_custom \<and>
   knowledge_base (fst (script stub_env empty_custom indexed_session)) \<noteq> None \<and>
   outcome (sidebar stub_env empty_custom indexed_session) = Inr () \<and>
   agent_runs (events (script stub_env empty_custom indexed_session)) = [] \<and>
   StWarning ''Please enter a query.'' \<in> set (events (script stub_env empty_custom indexed_session))"
proof -
  have up: "uploaded_file empty_custom = Some contract_pdf"
    by (simp add: empty_custom_def first_upload_def)
  have a: "analysis_type empty_custom = CustomQuery" "text_area empty_custom = []" "button empty_custom"
    by (simp_all add: empty_custom_def first_upload_def)
  have k: "knowledge_base (fst (script stub_env empty_custom indexed_session)) \<noteq> None"
    by (simp add: fst_script up) (simp add: indexed_session_def)
  have o: "outcome (sidebar stub_env empty_custom indexed_session) = Inr ()"
    by (simp add: up)
  from empty_custom_query_warns [OF a k o] a k o show ?thesis by simp
qed

text \<open>
  A text area holding one space is a non-empty string: \<^verbatim>\<open>not query\<close> is false, the
  three analysis agents are run on the space, the Team Lead three times, and no warning
  is shown.
\<close>

theorem blank_custom_query_counterexample:
  "analysis_type space_custom = CustomQuery \<and> text_area space_custom = '' '' \<and>
   map fst (agent_runs (events (script stub_env space_custom indexed_session))) =
     [''Legal Researcher'', ''Contract Analyst'', ''Legal Strategy Agent'',
      ''Team Lead'', ''Team Lead'', ''Team Lead''] \<and>
   map snd (take 3 (agent_runs (events (script stub_env space_custom indexed_session)))) =
     ['' '', '' '', '' ''] \<and>
   StWarning ''Please enter a query.'' \<notin> set (events (script stub_env space_custom indexed_session))"
proof -
  have up: "uploaded_file space_custom = Some contract_pdf"
    by (simp add: space_custom_def first_upload_def)
  have a: "analysis_type space_custom = CustomQuery" "text_area space_custom = '' ''" "button space_custom"
    by (simp_all add: space_custom_def first_upload_def)
  have q: "query_of space_custom = '' ''" using a by (simp add: query_of_def)
  have sp: "'' '' \<noteq> ([] :: string)" by simp
  note an = analyze_ok [OF sp stub_run stub_run stub_run stub_run stub_run stub_run]
  have ev: "events (script stub_env space_custom indexed_session) =
      page_top @ sidebar_widgets @ app_widgets space_custom
        @ fst (analyze stub_env (vector_db indexed_session) indexed_agents '' '')"
    by (simp add: script_indexed [OF up] app_analyze a(3) q)
  show ?thesis
    unfolding ev an using a(1,2)
    by (simp add: indexed_names page_top_def sidebar_widgets_def app_widgets_def)
qed

subsection \<open>Text or placeholder\<close>

text \<open>
  C9. In a run that obtained the report, each of the three views shows the content its
  call returned when that content is a non-empty text, and its placeholder when the
  content is \<^verbatim>\<open>None\<close> or the empty text: \<^verbatim>\<open>No response generated.\<close> for the
  analysis, \<^verbatim>\<open>No summary generated.\<close> for the key points,
  \<^verbatim>\<open>No recommendations generated.\<close> for the recommendations. A view whose call
  raises is not shown, nor is any view after it.
\<close>

theorem views_show_text_or_placeholder:
  assumes reached: "outcome (sidebar env inp s) = Inr ()"
      and ags: "make_agents (fst (script env inp s)) = Some ags"
      and click: "button inp" "query_of inp \<noteq> []"
      and db: "db = vector_db (fst (script env inp s))"
      and r: "agent_run env (legal_researcher ags) db (query_of inp) = Inr r"
      and c: "agent_run env (contract_analyst ags) db (query_of inp) = Inr c"
      and g: "agent_run env (strategy_agent ags) db (query_of inp) = Inr g"
      and c0: "agent_run env (team_lead ags) db (synthesis_prompt r c g) = Inr c0"
  shows "events (script env inp s) =
     page_top @ events (sidebar env inp s) @ app_widgets inp @
     [StSpinner ''Analyzing...'',
      AgentRun ''Legal Researcher'' (query_of inp),
      AgentRun ''Contract Analyst'' (query_of inp),
      AgentRun ''Legal Strategy Agent'' (query_of inp),
      AgentRun ''Team Lead'' (synthesis_prompt r c g),
      StTabs [''Analysis'', ''Key Points'', ''Recommendations''],
      StSubheader (bookmark_tabs @ '' Detailed Analysis''),
      StMarkdown (case c0 of None \<Rightarrow> ''No response generated.''
                  | Some t \<Rightarrow> if t = [] then ''No response generated.'' else t),
      StSubheader (pushpin @ '' Key Points Summary''),
      AgentRun ''Team Lead'' (key_points_prompt c0)]
     @ (case agent_run env (team_lead ags) db (key_points_prompt c0) of
          Inl e \<Rightarrow> []
        | Inr c1 \<Rightarrow>
            [StMarkdown (case c1 of None \<Rightarrow> ''No summary generated.''
                         | Some t \<Rightarrow> if t = [] then ''No summary generated.'' else t),
             StSubheader (clipboard @ '' Recommendations''),
             AgentRun ''Team Lead'' (recommendations_prompt c0)]
            @ (case agent_run env (team_lead ags) db (recommendations_prompt c0) of
                 Inl e \<Rightarrow> []
               | Inr c2 \<Rightarrow>
                   [StMarkdown (case c2 of None \<Rightarrow> ''No recommendations generated.''
                                | Some t \<Rightarrow> if t = [] then ''No recommendations generated.'' else t)]))"
proof -
  have s1: "fst (script env inp s) = fst (sidebar env inp s)" by (rule fst_script)
  have v: "\<And>x p. content_or x p = (case x of None \<Rightarrow> p | Some t \<Rightarrow> if t = [] then p else t)"
    by (simp add: content_or_def truthy_def fmt_def split: option.splits)
  have "events (script env inp s) =
      page_top @ events (sidebar env inp s) @ app_widgets inp @ fst (analyze env db ags (query_of inp))"
    using ags click(1) unfolding s1 db by (simp add: script_reaches_app [OF reached] app_analyze)
  then show ?thesis
    using make_agents_names(1-4) [OF ags]
    by (simp add: analyze_report [OF click(2) r c g c0] show_tabs_events v split: sum.splits)
qed

theorem views_show_text_or_placeholder_witness:
  "outcome (sidebar terse_env click_analyze indexed_session) = Inr () \<and>
   make_agents (fst (script terse_env click_analyze indexed_session)) = Some indexed_agents \<and>
   button click_analyze \<and> query_of click_analyze \<noteq> [] \<and>
   agent_run terse_env (legal_researcher indexed_agents) (vector_db indexed_session)
     (query_of click_analyze) = Inr (Some ''reply of Legal Researcher'') \<and>
   agent_run terse_env (contract_analyst indexed_agents) (vector_db indexed_session)
     (query_of click_analyze) = Inr (Some ''reply of Contract Analyst'') \<and>
   agent_run terse_env (strategy_agent indexed_agents) (vector_db indexed_session)
     (query_of click_analyze) = Inr (Some ''reply of Legal Strategy Agent'') \<and>
   agent_run terse_env (team_lead indexed_agents) (vector_db indexed_session)
     (synthesis_prompt (Some ''reply of Legal Researcher'') (Some ''reply of Contract Analyst'')
        (Some ''reply of Legal Strategy Agent'')) = Inr (Some ''The report.'') \<and>
   StMarkdown ''The report.'' \<in> set (events (script terse_env click_analyze indexed_session)) \<and>
   StMarkdown ''No summary generated.''
     \<in> set (events (script terse_env click_analyze indexed_session)) \<and>
   StMarkdown ''No recommendations generated.''
     \<in> set (events (script terse_env click_analyze indexed_session))"
proof -
  have o: "outcome (sidebar terse_env click_analyze indexed_session) = Inr ()"
    by (simp add: click_analyze_simps)
  have s1: "fst (script terse_env click_analyze indexed_session) = indexed_session"
    by (simp add: fst_script click_analyze_simps)
  have a: "make_agents (fst (script terse_env click_analyze indexed_session)) = Some indexed_agents"
    by (simp add: s1 make_agents_indexed)
  have db: "vector_db indexed_session = vector_db (fst (script terse_env click_analyze indexed_session))"
    by (simp add: s1)
  note t = terse_run [of "vector_db indexed_session"]
  from views_show_text_or_placeholder [OF o a click_analyze_simps(2,3) db t(1-3) t(4)]
  have "StMarkdown ''The report.'' \<in> set (events (script terse_env click_analyze indexed_session)) \<and>
   StMarkdown ''No summary generated.''
     \<in> set (events (script terse_env click_analyze indexed_session)) \<and>
   StMarkdown ''No recommendations generated.''
     \<in> set (events (script terse_env click_analyze indexed_session))"
    by (simp add: t)
  with o a click_analyze_simps(2,3) t(1-4) show ?thesis by blast
qed

subsection \<open>Key points and recommendations\<close>

text \<open>
  C6, as the code has it. The Team Lead is built without a knowledge base and without
  tools, so its calls retrieve nothing. In every run that obtained the report, it is
  called again right after the analysis view, on
  \<^verbatim>\<open>Summarize the key legal points from this analysis:\<close>, a newline and the report's
  text; what that call returns is the key points text. When it has returned, the Team Lead
  is called on \<^verbatim>\<open>Provide specific legal recommendations based on this analysis:\<close>, a
  newline and the report's text; what that call returns is the recommendations text. The
  three analysis agents are run once, before the report. Nothing in the run selects a
  view: the two calls belong to every analysis.
\<close>

theorem derived_views_follow_report:
  assumes reached: "outcome (sidebar env inp s) = Inr ()"
      and ags: "make_agents (fst (script env inp s)) = Some ags"
      and click: "button inp" "query_of inp \<noteq> []"
      and db: "db = vector_db (fst (script env inp s))"
      and r: "agent_run env (legal_researcher ags) db (query_of inp) = Inr r"
      and c: "agent_run env (contract_analyst ags) db (query_of inp) = Inr c"
      and g: "agent_run env (strategy_agent ags) db (query_of inp) = Inr g"
      and report: "agent_run env (team_lead ags) db (synthesis_prompt r c g) = Inr report"
  shows "team_lead ags =
           \<lparr>name = ''Team Lead'', knowledge = None, search_knowledge = None, tools = []\<rparr> \<and>
         events (script env inp s) =
           page_top @ events (sidebar env inp s) @ app_widgets inp @
           [StSpinner ''Analyzing...'',
            AgentRun ''Legal Researcher'' (query_of inp),
            AgentRun ''Contract Analyst'' (query_of inp),
            AgentRun ''Legal Strategy Agent'' (query_of inp),
            AgentRun ''Team Lead'' (synthesis_prompt r c g),
            StTabs [''Analysis'', ''Key Points'', ''Recommendations''],
            StSubheader (bookmark_tabs @ '' Detailed Analysis''),
            StMarkdown (content_or report ''No response generated.''),
            StSubheader (pushpin @ '' Key Points Summary''),
            AgentRun ''Team Lead''
              (''Summarize the key legal points from this analysis:'' @ nl @ fmt report)]
           @ (case agent_run env
                     \<lparr>name = ''Team Lead'', knowledge = None, search_knowledge = None, tools = []\<rparr>
                     db (''Summarize the key legal points from this analysis:'' @ nl @ fmt report) of
                Inl e \<Rightarrow> []
              | Inr key_points \<Rightarrow>
                  [StMarkdown (content_or key_points ''No summary generated.''),
                   StSubheader (clipboard @ '' Recommendations''),
                   AgentRun ''Team Lead''
                     (''Provide specific legal recommendations based on this analysis:'' @ nl
                      @ fmt report)]
                  @ (case agent_run env
                            \<lparr>name = ''Team Lead'', knowledge = None, search_knowledge = None,
                             tools = []\<rparr>
                            db (''Provide specific legal recommendations based on this analysis:''
                                @ nl @ fmt report) of
                       Inl e \<Rightarrow> []
                     | Inr recommendations \<Rightarrow>
                         [StMarkdown (content_or recommendations ''No recommendations generated.'')]))"
proof -
  have s1: "fst (script env inp s) = fst (sidebar env inp s)" by (rule fst_script)
  have tl: "team_lead ags =
      \<lparr>name = ''Team Lead'', knowledge = None, search_knowledge = None, tools = []\<rparr>"
    using make_agents_team_lead [OF ags] .
  have "events (script env inp s) =
      page_top @ events (sidebar env inp s) @ app_widgets inp @ fst (analyze env db ags (query_of inp))"
    using ags click(1) unfolding s1 db by (simp add: script_reaches_app [OF reached] app_analyze)
  then have "events (script env inp s) =
      page_top @ events (sidebar env inp s) @ app_widgets inp @
      ([StSpinner ''Analyzing...'',
        AgentRun (name (legal_researcher ags)) (query_of inp),
        AgentRun (name (contract_analyst ags)) (query_of inp),
        AgentRun (name (strategy_agent ags)) (query_of inp),
        AgentRun (name (team_lead ags)) (synthesis_prompt r c g)]
       @ fst (show_tabs env db ags report))"
    by (simp add: analyze_report [OF click(2) r c g report])
  then show ?thesis
    using make_agents_names(1-3) [OF ags] tl
    by (simp add: show_tabs_events key_points_prompt_def recommendations_prompt_def
        split: sum.splits)
qed

theorem derived_views_follow_report_witness:
  "outcome (sidebar stub_env click_analyze indexed_session) = Inr () \<and>
   make_agents (fst (script stub_env click_analyze indexed_session)) = Some indexed_agents \<and>
   button click_analyze \<and> query_of click_analyze \<noteq> [] \<and>
   agent_run stub_env (legal_researcher indexed_agents) (vector_db indexed_session) (query_of click_analyze)
     = Inr (Some ''reply of Legal Researcher'') \<and>
   agent_run stub_env (contract_analyst indexed_agents) (vector_db indexed_session) (query_of click_analyze)
     = Inr (Some ''reply of Contract Analyst'') \<and>
   agent_run stub_env (strategy_agent indexed_agents) (vector_db indexed_session) (query_of click_analyze)
     = Inr (Some ''reply of Legal Strategy Agent'') \<and>
   agent_run stub_env (team_lead indexed_agents) (vector_db indexed_session)
     (synthesis_prompt (Some ''reply of Legal Researcher'') (Some ''reply of Contract Analyst'')
        (Some ''reply of Legal Strategy Agent'')) = Inr (Some ''reply of Team Lead'') \<and>
   team_lead indexed_agents =
     \<lparr>name = ''Team Lead'', knowledge = None, search_knowledge = None, tools = []\<rparr> \<and>
   drop 4 (agent_runs (events (script stub_env click_analyze indexed_session))) =
     [(''Team Lead'', ''Summarize the key legal points from this analysis:'' @ nl @ ''reply of Team Lead''),
      (''Team Lead'', ''Provide specific legal recommendations based on this analysis:'' @ nl @ ''reply of Team Lead'')]"
proof -
  have o: "outcome (sidebar stub_env click_analyze indexed_session) = Inr ()"
    by (simp add: click_analyze_simps)
  have s1: "fst (script stub_env click_analyze indexed_session) = indexed_session"
    by (simp add: fst_script click_analyze_simps)
  have a: "make_agents (fst (script stub_env click_analyze indexed_session)) = Some indexed_agents"
    by (simp add: s1 make_agents_indexed)
  have db: "vector_db indexed_session = vector_db (fst (script stub_env click_analyze indexed_session))"
    by (simp add: s1)
  have r: "agent_run stub_env (legal_researcher indexed_agents) (vector_db indexed_session) (query_of click_analyze)
     = Inr (Some ''reply of Legal Researcher'')"
    and c: "agent_run stub_env (contract_analyst indexed_agents) (vector_db indexed_session) (query_of click_analyze)
     = Inr (Some ''reply of Contract Analyst'')"
    and g: "agent_run stub_env (strategy_agent indexed_agents) (vector_db indexed_session) (query_of click_analyze)
     = Inr (Some ''reply of Legal Strategy Agent'')"
    and t: "agent_run stub_env (team_lead indexed_agents) (vector_db indexed_session)
     (synthesis_prompt (Some ''reply of Legal Researcher'') (Some ''reply of Contract Analyst'')
        (Some ''reply of Legal Strategy Agent'')) = Inr (Some ''reply of Team Lead'')"
    by (simp_all add: indexed_names)
  from derived_views_follow_report [OF o a click_analyze_simps(2,3) db r c g t]
  have "team_lead indexed_agents =
     \<lparr>name = ''Team Lead'', knowledge = None, search_knowledge = None, tools = []\<rparr> \<and>
   drop 4 (agent_runs (events (script stub_env click_analyze indexed_session))) =
     [(''Team Lead'', ''Summarize the key legal points from this analysis:'' @ nl @ ''reply of Team Lead''),
      (''Team Lead'', ''Provide specific legal recommendations based on this analysis:'' @ nl @ ''reply of Team Lead'')]"
    by (simp add: fmt_def click_analyze_simps)
  with o a click_analyze_simps(2,3) r c g t show ?thesis by blast
qed

text \<open>
  One press of Analyze in the indexed session, with the stub agents: six agent runs, the
  last two the Team Lead's derived calls, each on an instruction line and the report.
\<close>

theorem derived_views_counterexample:
  "length (agent_runs (events (script stub_env click_analyze indexed_session))) = 6 \<and>
   drop 4 (agent_runs (events (script stub_env click_analyze indexed_session))) =
     [(''Team Lead'', ''Summarize the key legal points from this analysis:'' @ nl @ ''reply of Team Lead''),
      (''Team Lead'', ''Provide specific legal recommendations based on this analysis:'' @ nl @ ''reply of Team Lead'')]"
proof -
  have ev: "agent_runs (events (script stub_env click_analyze indexed_session)) =
      agent_runs (fst (analyze stub_env (vector_db indexed_session) indexed_agents (query_of click_analyze)))"
    by (simp add: script_indexed click_analyze_simps app_analyze)
  show ?thesis
    unfolding ev
    by (simp add: analyze_ok [OF click_analyze_simps(3) stub_run stub_run stub_run stub_run stub_run stub_run]
        indexed_names key_points_prompt_def recommendations_prompt_def fmt_def)
qed

subsection \<open>The session across runs\<close>

lemma sidebar_new_file:
  assumes "uploaded_file inp = Some f" and "file_name f \<notin> processed_files s"
      and "write_temp env (getvalue f) = Inr p"
      and "kb = \<lparr>path = p, chunk_size = chunk_size_in inp, overlap = overlap_in inp\<rparr>"
  shows "sidebar env inp s =
     (case kb_load env kb True True (vector_db s) of
        (Some e, db') \<Rightarrow>
          (s\<lparr>knowledge_base := Some kb, vector_db := db'\<rparr>,
           sidebar_widgets @
           [StSpinner ''Processing document...'', TempWrite (getvalue f), KBLoad kb True True]
           @ (if is_Exception e then [processing_error e] else []),
           if is_Exception e then Inr () else Inl e)
      | (None, db') \<Rightarrow>
          (s\<lparr>knowledge_base := Some kb, vector_db := db',
             processed_files := insert (file_name f) (processed_files s)\<rparr>,
           sidebar_widgets @
           [StSpinner ''Processing document...'', TempWrite (getvalue f), KBLoad kb True True,
            StSuccess (check_mark @ ''Document parsed and added to the knowledge base.'')],
           Inr ()))"
  using assms
  by (simp add: sidebar_def process_document_def except_Exception_def Let_def
      split: prod.splits option.splits)

lemma sidebar_write_fails:
  assumes "uploaded_file inp = Some f" and "file_name f \<notin> processed_files s"
      and "write_temp env (getvalue f) = Inl e"
  shows "sidebar env inp s =
     (s,
      sidebar_widgets @ [StSpinner ''Processing document...'', TempWrite (getvalue f)]
      @ (if is_Exception e then [processing_error e] else []),
      if is_Exception e then Inr () else Inl e)"
  using assms by (simp add: sidebar_def process_document_def except_Exception_def)




subsection \<open>Uploading the same file name again\<close>




subsection \<open>The chunking parameters\<close>

text \<open>
  C4, as the code has it. The script never compares the overlap with the chunk size. For
  every pair of values, processing a new upload begins with writing the temporary file.
  If that returned, \<^verbatim>\<open>load(recreate=True, upsert=True)\<close> is called on a knowledge
  base built with exactly that pair. Indexing fails only if the file write or
  \<^verbatim>\<open>load\<close> raises: an instance of \<^verbatim>\<open>Exception\<close> is shown as an error message
  and the run goes on, any other exception ends the run.
\<close>

theorem chunking_parameters_forwarded:
  assumes "uploaded_file inp = Some f" and "file_name f \<notin> processed_files s"
  shows "events (sidebar env inp s) =
           sidebar_widgets @ [StSpinner ''Processing document...'', TempWrite (getvalue f)] @
           (case write_temp env (getvalue f) of
              Inl e \<Rightarrow>
                (if is_Exception e
                 then [StError (cross_mark @ '' Error processing document: '' @ exn_str e)]
                 else [])
            | Inr p \<Rightarrow>
                KBLoad \<lparr>path = p, chunk_size = chunk_size_in inp, overlap = overlap_in inp\<rparr> True True #
                (case fst (kb_load env
                             \<lparr>path = p, chunk_size = chunk_size_in inp, overlap = overlap_in inp\<rparr>
                             True True (vector_db s)) of
                   Some e \<Rightarrow>
                     (if is_Exception e
                      then [StError (cross_mark @ '' Error processing document: '' @ exn_str e)]
                      else [])
                 | None \<Rightarrow>
                     [StSuccess (check_mark @ ''Document parsed and added to the knowledge base.'')])) \<and>
         outcome (sidebar env inp s) =
           (case write_temp env (getvalue f) of
              Inl e \<Rightarrow> (if is_Exception e then Inr () else Inl e)
            | Inr p \<Rightarrow>
                (case fst (kb_load env
                             \<lparr>path = p, chunk_size = chunk_size_in inp, overlap = overlap_in inp\<rparr>
                             True True (vector_db s)) of
                   Some e \<Rightarrow> (if is_Exception e then Inr () else Inl e)
                 | None \<Rightarrow> Inr ()))"
proof (cases "write_temp env (getvalue f)")
  case (Inl e)
  from sidebar_write_fails [OF assms Inl] Inl show ?thesis
    by (simp add: processing_error_def)
next
  case (Inr p)
  from sidebar_new_file [OF assms Inr refl] Inr show ?thesis
    by (simp add: processing_error_def split: prod.splits option.splits)
qed

theorem chunking_parameters_forwarded_witness:
  "uploaded_file overlap_exceeds = Some contract_pdf \<and>
   file_name contract_pdf \<notin> processed_files (fresh_session []) \<and>
   chunk_size_in overlap_exceeds = 100 \<and> overlap_in overlap_exceeds = 200 \<and>
   events (sidebar unreadable_env overlap_exceeds (fresh_session [])) =
     sidebar_widgets @
     [StSpinner ''Processing document...'',
      TempWrite ''%PDF-1.4'',
      KBLoad \<lparr>path = ''/tmp/tmpdoc.pdf'', chunk_size = 100, overlap = 200\<rparr> True True,
      StError (cross_mark @ '' Error processing document: EOF marker not found'')] \<and>
   outcome (sidebar unreadable_env overlap_exceeds (fresh_session [])) = Inr () \<and>
   events (sidebar interrupted_env overlap_exceeds (fresh_session [])) =
     sidebar_widgets @
     [StSpinner ''Processing document...'',
      TempWrite ''%PDF-1.4'',
      KBLoad \<lparr>path = ''/tmp/tmpdoc.pdf'', chunk_size = 100, overlap = 200\<rparr> True True] \<and>
   outcome (sidebar interrupted_env overlap_exceeds (fresh_session []))
     = Inl (BaseExn ''KeyboardInterrupt'' [])"
proof -
  have a: "uploaded_file overlap_exceeds = Some contract_pdf"
    by (simp add: overlap_exceeds_def first_upload_def)
  have b: "file_name contract_pdf \<notin> processed_files (fresh_session [])"
    by (simp add: fresh_session_def)
  have d: "chunk_size_in overlap_exceeds = 100" "overlap_in overlap_exceeds = 200"
    by (simp_all add: overlap_exceeds_def first_upload_def)
  from chunking_parameters_forwarded [OF a b, of unreadable_env]
  have u: "events (sidebar unreadable_env overlap_exceeds (fresh_session [])) =
     sidebar_widgets @
     [StSpinner ''Processing document...'',
      TempWrite ''%PDF-1.4'',
      KBLoad \<lparr>path = ''/tmp/tmpdoc.pdf'', chunk_size = 100, overlap = 200\<rparr> True True,
      StError (cross_mark @ '' Error processing document: EOF marker not found'')] \<and>
   outcome (sidebar unreadable_env overlap_exceeds (fresh_session [])) = Inr ()"
    by (simp add: d contract_pdf_def unreadable_env_def stub_env_def is_Exception_def)
  from chunking_parameters_forwarded [OF a b, of interrupted_env]
  have i: "events (sidebar interrupted_env overlap_exceeds (fresh_session [])) =
     sidebar_widgets @
     [StSpinner ''Processing document...'',
      TempWrite ''%PDF-1.4'',
      KBLoad \<lparr>path = ''/tmp/tmpdoc.pdf'', chunk_size = 100, overlap = 200\<rparr> True True] \<and>
   outcome (sidebar interrupted_env overlap_exceeds (fresh_session []))
     = Inl (BaseExn ''KeyboardInterrupt'' [])"
    by (simp add: d contract_pdf_def interrupted_env_def stub_env_def is_Exception_def)
  from a b d u i show ?thesis by blast
qed

text \<open>
  Chunk size 100 and overlap 200 are values the two number inputs can return. The file is
  written and \<^verbatim>\<open>load\<close> is called with them; with a \<^verbatim>\<open>load\<close> that returns, the
  document counts as processed.
\<close>

theorem config_check_counterexample:
  "widget_range overlap_exceeds \<and> chunk_size_in overlap_exceeds \<le> overlap_in overlap_exceeds \<and>
   events (sidebar stub_env overlap_exceeds (fresh_session [])) =
     sidebar_widgets @
     [StSpinner ''Processing document...'',
      TempWrite ''%PDF-1.4'',
      KBLoad \<lparr>path = ''/tmp/tmpdoc.pdf'', chunk_size = 100, overlap = 200\<rparr> True True,
      StSuccess (check_mark @ ''Document parsed and added to the knowledge base.'')] \<and>
   processed_files (fst (sidebar stub_env overlap_exceeds (fresh_session []))) = {''contract.pdf''}"
  by (simp add: sidebar_def process_document_def Let_def stub_env_def overlap_exceeds_def
      first_upload_def fresh_session_def contract_pdf_def widget_range_def)

subsection \<open>A failed indexing\<close>

lemma sidebar_unreadable:
  assumes "uploaded_file inp = Some contract_pdf"
      and "chunk_size_in inp = 1000" and "overlap_in inp = 200"
      and "vector_db s = []" and "processed_files s = {}"
  shows "sidebar unreadable_env inp s =
     (s\<lparr>knowledge_base := Some \<lparr>path = ''/tmp/tmpdoc.pdf'', chunk_size = 1000, overlap = 200\<rparr>\<rparr>,
      sidebar_widgets @
      [StSpinner ''Processing document...'', TempWrite ''%PDF-1.4'',
       KBLoad \<lparr>path = ''/tmp/tmpdoc.pdf'', chunk_size = 1000, overlap = 200\<rparr> True True,
       StError (cross_mark @ '' Error processing document: EOF marker not found'')],
      Inr ())"
proof -
  have n: "file_name contract_pdf \<notin> processed_files s" using assms(5) by simp
  have w: "write_temp unreadable_env (getvalue contract_pdf) = Inr ''/tmp/tmpdoc.pdf''"
    by (simp add: unreadable_env_def stub_env_def)
  from sidebar_new_file [OF assms(1) n w refl] assms(2-4) show ?thesis
    by (simp add: unreadable_env_def stub_env_def is_Exception_def processing_error_def
        contract_pdf_def)
qed

text \<open>
  C5. In a fresh session, \<open>contract.pdf\<close> is uploaded and \<^verbatim>\<open>load\<close> raises. The error
  is shown and the file is not marked as processed, but the session's knowledge base is
  the new, unloaded one: the Analyze button is rendered in that very run, and pressing it
  runs the three analysis agents and the Team Lead. In a session that holds an indexed
  document, a failed upload of another file replaces the session's knowledge base as well.
\<close>

theorem failed_indexing_leaves_queries_open:
  "knowledge_base (fresh_session ([] :: collection)) = None \<and>
   knowledge_base (fst (script unreadable_env first_upload (fresh_session []))) =
     Some \<lparr>path = ''/tmp/tmpdoc.pdf'', chunk_size = 1000, overlap = 200\<rparr> \<and>
   processed_files (fst (script unreadable_env first_upload (fresh_session []))) = {} \<and>
   StError (cross_mark @ '' Error processing document: EOF marker not found'')
     \<in> set (events (script unreadable_env first_upload (fresh_session []))) \<and>
   StButton ''Analyze'' \<in> set (events (script unreadable_env first_upload (fresh_session []))) \<and>
   map fst (agent_runs (events (script unreadable_env click_analyze
       (fst (script unreadable_env first_upload (fresh_session [])))))) =
     [''Legal Researcher'', ''Contract Analyst'', ''Legal Strategy Agent'',
      ''Team Lead'', ''Team Lead'', ''Team Lead''] \<and>
   knowledge_base (fst (script unreadable_env lease_upload indexed_session)) =
     Some \<lparr>path = ''/tmp/tmpdoc.pdf'', chunk_size = 800, overlap = 100\<rparr>"
proof -
  let ?kb = "\<lparr>path = ''/tmp/tmpdoc.pdf'', chunk_size = 1000, overlap = 200\<rparr>"
  let ?s1 = "\<lparr>vector_db = ([] :: collection), knowledge_base = Some ?kb, processed_files = {}\<rparr>"
  let ?evs = "sidebar_widgets @
      [StSpinner ''Processing document...'', TempWrite ''%PDF-1.4'', KBLoad ?kb True True,
       StError (cross_mark @ '' Error processing document: EOF marker not found'')]"
  have sb1: "sidebar unreadable_env first_upload (fresh_session []) = (?s1, ?evs, Inr ())"
    using sidebar_unreadable [of first_upload "fresh_session []"]
    by (simp add: first_upload_def fresh_session_def)
  have sb2: "sidebar unreadable_env click_analyze ?s1 = (?s1, ?evs, Inr ())"
    using sidebar_unreadable [of click_analyze ?s1]
    by (simp add: click_analyze_def first_upload_def)
  have nb: "\<not> button first_upload" by (simp add: first_upload_def)
  have ev1: "events (script unreadable_env first_upload (fresh_session [])) =
      page_top @ ?evs @ app_widgets first_upload"
    using script_reaches_app [of unreadable_env first_upload "fresh_session []"] nb
    by (simp add: sb1 make_agents_def app_def)
  obtain ags where ags: "make_agents ?s1 = Some ags"
    by (simp add: make_agents_def)
  have run: "\<And>a p. agent_run unreadable_env a [] p = Inr (Some (''reply of '' @ name a))"
    by (simp add: unreadable_env_def stub_env_def)
  have an: "map fst (agent_runs (fst (analyze unreadable_env [] ags (query_of click_analyze)))) =
       [''Legal Researcher'', ''Contract Analyst'', ''Legal Strategy Agent'',
        ''Team Lead'', ''Team Lead'', ''Team Lead'']"
    using make_agents_names(1-4) [OF ags]
    by (simp add: analyze_ok [OF click_analyze_simps(3) run run run run run run])
  have ev2: "agent_runs (events (script unreadable_env click_analyze ?s1)) =
      agent_runs (fst (analyze unreadable_env [] ags (query_of click_analyze)))"
    using script_reaches_app [of unreadable_env click_analyze ?s1] ags click_analyze_simps(2)
    by (simp add: sb2 app_analyze)
  have l: "knowledge_base (fst (script unreadable_env lease_upload indexed_session)) =
     Some \<lparr>path = ''/tmp/tmpdoc.pdf'', chunk_size = 800, overlap = 100\<rparr>"
    by (simp add: fst_script sidebar_def process_document_def except_Exception_def Let_def
        unreadable_env_def stub_env_def lease_upload_def first_upload_def indexed_session_def)
  have s1: "fst (script unreadable_env first_upload (fresh_session [])) = ?s1"
    by (simp add: fst_script sb1)
  show ?thesis
    using an l
    by (simp add: s1 ev1 ev2 app_widgets_def) (simp add: fresh_session_def)
qed

subsection \<open>The gate on the knowledge base\<close>

text \<open>
  When \<^verbatim>\<open>st.session_state.knowledge_base\<close> is \<^verbatim>\<open>None\<close> at line 70, no agent is
  constructed, the run consists of the page top and the sidebar only, so neither the
  select box nor the Analyze button is rendered, and no agent is run.
\<close>

lemma gate_closed_without_knowledge_base:
  assumes "knowledge_base (fst (script env inp s)) = None"
  shows "make_agents (fst (script env inp s)) = None \<and>
         events (script env inp s) = page_top @ events (sidebar env inp s) \<and>
         agent_runs (events (script env inp s)) = [] \<and>
         (\<forall>l. StSelectbox l \<notin> set (events (script env inp s))) \<and>
         (\<forall>l. StButton l \<notin> set (events (script env inp s)))"
proof -
  have m: "make_agents (fst (sidebar env inp s)) = None"
    using assms by (simp add: fst_script make_agents_def)
  have ev: "events (script env inp s) = page_top @ events (sidebar env inp s)"
  proof (cases "outcome (sidebar env inp s)")
    case (Inl e)
    from script_ends_in_sidebar [OF this] show ?thesis by simp
  next
    case (Inr u)
    then have "outcome (sidebar env inp s) = Inr ()" by simp
    from script_reaches_app [OF this] m show ?thesis by (simp add: app_def)
  qed
  show ?thesis
    using m ev no_widgets_in_sidebar [of _ env inp s]
    by (simp add: fst_script) (simp add: page_top_def)
qed

text \<open>
  C10. In a fresh session no document has been uploaded successfully. \<open>contract.pdf\<close> is
  uploaded and \<^verbatim>\<open>load\<close> raises: the file is not marked as processed, yet the session's
  knowledge base is no longer \<^verbatim>\<open>None\<close>, the four agents are constructed in that very
  run, and the select box and the Analyze button are rendered.
\<close>

theorem failed_upload_builds_agents:
  "knowledge_base (fresh_session ([] :: collection)) = None \<and>
   processed_files (fresh_session ([] :: collection)) = {} \<and>
   StError (cross_mark @ '' Error processing document: EOF marker not found'')
     \<in> set (events (script unreadable_env first_upload (fresh_session []))) \<and>
   processed_files (fst (script unreadable_env first_upload (fresh_session []))) = {} \<and>
   make_agents (fst (script unreadable_env first_upload (fresh_session []))) = Some indexed_agents \<and>
   StSelectbox ''Choose Analysis Type:''
     \<in> set (events (script unreadable_env first_upload (fresh_session []))) \<and>
   StButton ''Analyze'' \<in> set (events (script unreadable_env first_upload (fresh_session [])))"
proof -
  let ?kb = "\<lparr>path = ''/tmp/tmpdoc.pdf'', chunk_size = 1000, overlap = 200\<rparr>"
  let ?s1 = "\<lparr>vector_db = ([] :: collection), knowledge_base = Some ?kb, processed_files = {}\<rparr>"
  let ?evs = "sidebar_widgets @
      [StSpinner ''Processing document...'', TempWrite ''%PDF-1.4'', KBLoad ?kb True True,
       StError (cross_mark @ '' Error processing document: EOF marker not found'')]"
  have sb1: "sidebar unreadable_env first_upload (fresh_session []) = (?s1, ?evs, Inr ())"
    using sidebar_unreadable [of first_upload "fresh_session []"]
    by (simp add: first_upload_def fresh_session_def)
  have nb: "\<not> button first_upload" by (simp add: first_upload_def)
  have m: "make_agents ?s1 = Some indexed_agents"
    by (simp add: make_agents_def indexed_agents_def)
  have ev1: "events (script unreadable_env first_upload (fresh_session [])) =
      page_top @ ?evs @ app_widgets first_upload"
    using script_reaches_app [of unreadable_env first_upload "fresh_session []"] nb
    by (simp add: sb1 m app_def)
  have s1: "fst (script unreadable_env first_upload (fresh_session [])) = ?s1"
    by (simp add: fst_script sb1)
  show ?thesis
    by (simp add: s1 ev1 m app_widgets_def) (simp add: fresh_session_def)
qed

end
